theory Spec2Isabelle
  imports Complex_Main "HOL-Library.Log_Nat"
begin

section \<open>The /api/generate relay: values, errors and effects\<close>

text \<open>
  The handler of \<^verbatim>\<open>src/api/generate.js\<close> works on JavaScript values that come out of
  JSON decoding (the request body, the upstream response body). A value is modelled as
  the JSON tree it is; an object is the list of its own properties, looked up by key.
  The numbers of a JSON tree only matter through their truthiness (zero against
  non-zero), so they are reals; \<^verbatim>\<open>NaN\<close> is not a JSON value. Strings are character lists:
  the program only tests them for emptiness and for equality with ASCII literals.
\<close>

datatype jsval =
    JUndefined
  | JNull
  | JBool bool
  | JNum real
  | JStr string
  | JArr "jsval list"
  | JObj "(string \<times> jsval) list"

text \<open>
  Every \<^verbatim>\<open>throw\<close> of the source, and every exception the runtime raises on the paths
  the handler walks, is a value of this type. The template strings of lines 27 and 31
  are kept as their parameters.
\<close>

datatype js_error =
    RetriableHTTPError nat        \<comment> \<open>line 27: "Retriable HTTP error! status: N"\<close>
  | APIRequestFailed nat string   \<comment> \<open>line 31: "API Request failed with status N: body"\<close>
  | FetchRejected string          \<comment> \<open>\<^verbatim>\<open>fetch\<close> itself rejects (transport failure)\<close>
  | BodyReadFailed                \<comment> \<open>\<^verbatim>\<open>response.text()\<close> or \<^verbatim>\<open>response.json()\<close> cannot read the body\<close>
  | SyntaxError                   \<comment> \<open>\<^verbatim>\<open>response.json()\<close> on a body that is not JSON\<close>
  | TypeError                     \<comment> \<open>property read on undefined or null, call of a non-function\<close>

text \<open>
  The user-facing messages are string literals of the source (in Chinese); each literal
  is one constructor. In source order: line 55 (the API key is not set), line 60 (only
  POST is supported), line 82 (required request parameters are missing), line 128 (the
  content may have been blocked by the safety policy), line 129 (the image generation
  failed), line 139 (internal server error, followed by the exception's message).
\<close>

datatype message =
    KeyNotSet
  | PostOnly
  | MissingParams
  | BlockedBySafety
  | GenerationFailed
  | InternalError js_error

text \<open>The three shapes of body the handler passes to \<^verbatim>\<open>res.json\<close>.\<close>

datatype res_body =
    ErrorBody message                 \<comment> \<open>\<^verbatim>\<open>{ error }\<close>\<close>
  | ErrorDetailsBody message jsval    \<comment> \<open>\<^verbatim>\<open>{ error, details }\<close>\<close>
  | SuccessBody jsval                 \<comment> \<open>\<^verbatim>\<open>{ base64Data }\<close>\<close>

record reply =
  res_status :: nat
  res_json :: res_body

record http_request =
  req_method :: string
  body :: jsval

text \<open>What \<^verbatim>\<open>fetch\<close> resolves to: the status and the body text (\<open>None\<close> when the body
  cannot be read).\<close>

record response =
  response_status :: nat
  response_text :: "string option"

datatype fetch_outcome =
    Rejected string
  | Responded response

text \<open>
  The value of \<^verbatim>\<open>delay\<close> on line 40 is an IEEE 754 binary64 number that is never
  negative and never \<^verbatim>\<open>NaN\<close>: a finite value, given as the real it denotes, or
  \<^verbatim>\<open>Infinity\<close>.
\<close>

datatype double = Finite real | Infinity

text \<open>
  The observable effects, in order: the manual \<^verbatim>\<open>JSON.parse\<close> of line 70, each call of
  \<^verbatim>\<open>fetch\<close> with the loop's attempt index, and each backoff sleep with the delay in
  milliseconds that line 40 computed for it.
\<close>

datatype event =
    ManualParse string
  | Attempt nat
  | Delay double

text \<open>The request line 110 sends: the URL of line 86 (base, model, key) and the payload
  of lines 89 to 108.\<close>

datatype url = ApiUrl jsval string

subsection \<open>JavaScript primitives\<close>

fun truthy :: "jsval \<Rightarrow> bool" where
  "truthy JUndefined = False"
| "truthy JNull = False"
| "truthy (JBool b) = b"
| "truthy (JNum x) = (x \<noteq> 0)"
| "truthy (JStr s) = (s \<noteq> [])"
| "truthy (JArr xs) = True"
| "truthy (JObj kvs) = True"

fun nullish :: "jsval \<Rightarrow> bool" where
  "nullish JUndefined = True"
| "nullish JNull = True"
| "nullish v = False"

text \<open>\<^verbatim>\<open>v.k\<close> for the data keys this program reads (none of them is a built-in
  property of strings, arrays or numbers): a TypeError on undefined and null, the own
  property of an object, undefined elsewhere.\<close>

fun get_prop :: "jsval \<Rightarrow> string \<Rightarrow> js_error + jsval" where
  "get_prop JUndefined k = Inl TypeError"
| "get_prop JNull k = Inl TypeError"
| "get_prop (JObj kvs) k = Inr (case map_of kvs k of None \<Rightarrow> JUndefined | Some x \<Rightarrow> x)"
| "get_prop v k = Inr JUndefined"

text \<open>\<^verbatim>\<open>v?.k\<close>: undefined on undefined and null, \<^verbatim>\<open>v.k\<close> elsewhere.\<close>

fun opt_prop :: "jsval \<Rightarrow> string \<Rightarrow> jsval" where
  "opt_prop (JObj kvs) k = (case map_of kvs k of None \<Rightarrow> JUndefined | Some x \<Rightarrow> x)"
| "opt_prop v k = JUndefined"

text \<open>\<^verbatim>\<open>v?.[0]\<close>: the first element of an array, the first character of a string, the
  property \<^verbatim>\<open>"0"\<close> of an object.\<close>

fun opt_index0 :: "jsval \<Rightarrow> jsval" where
  "opt_index0 (JArr xs) = (case xs of [] \<Rightarrow> JUndefined | x # _ \<Rightarrow> x)"
| "opt_index0 (JStr s) = (case s of [] \<Rightarrow> JUndefined | c # _ \<Rightarrow> JStr [c])"
| "opt_index0 (JObj kvs) = (case map_of kvs ''0'' of None \<Rightarrow> JUndefined | Some x \<Rightarrow> x)"
| "opt_index0 v = JUndefined"

text \<open>\<^verbatim>\<open>parts.find(p => p.inlineData)\<close> on an array: the callback raises on an element
  that is undefined or null.\<close>

fun array_find :: "jsval list \<Rightarrow> js_error + jsval" where
  "array_find [] = Inr JUndefined"
| "array_find (p # ps) =
     (case get_prop p ''inlineData'' of
        Inl e \<Rightarrow> Inl e
      | Inr v \<Rightarrow> if truthy v then Inr p else array_find ps)"

subsection \<open>Binary64 arithmetic (line 40)\<close>

text \<open>Rounding a real to the nearest integer, a tie going to the even neighbour.\<close>

definition ties_even :: "real \<Rightarrow> int" where
  "ties_even z =
     (let f = \<lfloor>z\<rfloor> in
        if z - of_int f < 1 / 2 then f
        else if z - of_int f > 1 / 2 then f + 1
        else if even f then f else f + 1)"

text \<open>
  Rounding a non-negative real to binary64 with an unbounded exponent, round to nearest,
  ties to even. The real is scaled by \<open>2^1074\<close>, so that the smallest subnormal is 1; a
  scaled value of \<open>L\<close> bits, \<open>L > 53\<close>, keeps its 53 leading bits, so it is rounded to
  a multiple of \<open>2^(L - 53)\<close>, and a value of at most 53 bits to an integer.
\<close>

definition round64 :: "real \<Rightarrow> real" where
  "round64 x =
     (let X = x * 2 ^ 1074;
          L = floorlog 2 (nat \<lfloor>X\<rfloor>);
          p = L - 53
      in of_int (ties_even (X / 2 ^ p)) * 2 ^ p / 2 ^ 1074)"

text \<open>The result of an operation whose exact value is \<open>x \<ge> 0\<close>: it overflows to
  \<^verbatim>\<open>Infinity\<close> when the rounded value reaches \<open>2^1024\<close>.\<close>

definition to_double :: "real \<Rightarrow> double" where
  "to_double x = (if round64 x \<ge> 2 ^ 1024 then Infinity else Finite (round64 x))"

text \<open>\<^verbatim>\<open>*\<close> and \<^verbatim>\<open>+\<close> on the values line 40 meets: finite non-negative numbers, and
  \<^verbatim>\<open>Infinity\<close> times or plus such a number (the other factor is 1000).\<close>

fun double_mult :: "double \<Rightarrow> double \<Rightarrow> double" where
  "double_mult (Finite a) (Finite b) = to_double (a * b)"
| "double_mult a b = Infinity"

fun double_add :: "double \<Rightarrow> double \<Rightarrow> double" where
  "double_add (Finite a) (Finite b) = to_double (a + b)"
| "double_add a b = Infinity"

text \<open>Line 40: \<^verbatim>\<open>Math.pow(2, attempt) * 1000 + (Math.random() * 1000)\<close>, where \<open>r\<close> is
  the value of \<^verbatim>\<open>Math.random()\<close>. \<^verbatim>\<open>Math.pow(2, attempt)\<close> is the exact power, or
  \<^verbatim>\<open>Infinity\<close> from \<open>2^1024\<close> on.\<close>

definition backoff_delay :: "nat \<Rightarrow> real \<Rightarrow> double" where
  "backoff_delay attempt r =
     double_add (double_mult (to_double (2 ^ attempt)) (Finite 1000))
                (double_mult (Finite r) (Finite 1000))"

subsection \<open>fetchWithRetry (lines 20 to 44)\<close>

definition response_ok :: "response \<Rightarrow> bool" where
  "response_ok r = (200 \<le> response_status r \<and> response_status r \<le> 299)"

text \<open>The body of the \<^verbatim>\<open>try\<close> block, lines 23 to 33: \<open>Inr\<close> is the \<^verbatim>\<open>return\<close>, \<open>Inl\<close>
  an exception raised inside the block.\<close>

definition try_block :: "fetch_outcome \<Rightarrow> js_error + response" where
  "try_block out =
     (case out of
        Rejected m \<Rightarrow> Inl (FetchRejected m)
      | Responded r \<Rightarrow>
          if \<not> response_ok r then
            if response_status r = 429 \<or> response_status r \<ge> 500
            then Inl (RetriableHTTPError (response_status r))
            else (case response_text r of
                    None \<Rightarrow> Inl BodyReadFailed
                  | Some errorBody \<Rightarrow> Inl (APIRequestFailed (response_status r) errorBody))
          else Inr r)"

text \<open>
  The \<^verbatim>\<open>for\<close> loop from a given attempt index. \<open>fetch n\<close> is the outcome of the call of
  \<^verbatim>\<open>fetch\<close> in iteration \<open>n\<close>, \<open>random n\<close> the value of \<^verbatim>\<open>Math.random()\<close> there. Every
  exception of the \<^verbatim>\<open>try\<close> block reaches the \<^verbatim>\<open>catch\<close> of line 34. The result is
  \<open>Inl e\<close> when the function throws \<open>e\<close>, \<open>Inr (Some r)\<close> when it returns \<open>r\<close>, and
  \<open>Inr None\<close> when the loop ends and the function returns undefined.
\<close>

function fetchWithRetry_loop ::
  "(nat \<Rightarrow> fetch_outcome) \<Rightarrow> (nat \<Rightarrow> real) \<Rightarrow> nat \<Rightarrow> nat \<Rightarrow> (js_error + response option) \<times> event list"
where
  "fetchWithRetry_loop fetch random maxRetries attempt =
     (if attempt < maxRetries then
        (case try_block (fetch attempt) of
           Inr r \<Rightarrow> (Inr (Some r), [Attempt attempt])
         | Inl error \<Rightarrow>
             if int attempt = int maxRetries - 1 then (Inl error, [Attempt attempt])
             else
               (case fetchWithRetry_loop fetch random maxRetries (attempt + 1) of
                  (res, tr) \<Rightarrow>
                    (res, Attempt attempt # Delay (backoff_delay attempt (random attempt)) # tr)))
      else (Inr None, []))"
  by pat_completeness auto
termination
  by (relation "measure (\<lambda>(fetch, random, maxRetries, attempt). maxRetries - attempt)") auto

definition fetchWithRetry ::
  "(nat \<Rightarrow> fetch_outcome) \<Rightarrow> (nat \<Rightarrow> real) \<Rightarrow> nat \<Rightarrow> (js_error + response option) \<times> event list"
where
  "fetchWithRetry fetch random maxRetries = fetchWithRetry_loop fetch random maxRetries 0"

definition default_maxRetries :: nat where
  "default_maxRetries = 5"

subsection \<open>The handler (lines 52 to 141)\<close>

text \<open>Line 10: \<^verbatim>\<open>process.env.GEMINI_API_KEY || ""\<close>; the environment variable is a string
  or is not set.\<close>

definition API_KEY :: "string option \<Rightarrow> string" where
  "API_KEY env = (case env of None \<Rightarrow> [] | Some k \<Rightarrow> if k \<noteq> [] then k else [])"

text \<open>Lines 64 to 76. \<^verbatim>\<open>JSON.parse\<close> is the runtime's, so it is a parameter: \<open>None\<close>
  where it throws.\<close>

definition requestBody_of :: "(string \<Rightarrow> jsval option) \<Rightarrow> jsval \<Rightarrow> jsval \<times> event list" where
  "requestBody_of JSON_parse b =
     (case b of
        JStr s \<Rightarrow>
          if length s > 0
          then ((case JSON_parse s of Some v \<Rightarrow> v | None \<Rightarrow> JObj []), [ManualParse s])
          else (b, [])
      | _ \<Rightarrow> (b, []))"

text \<open>Line 79: destructuring undefined or null raises a TypeError.\<close>

definition destructure :: "jsval \<Rightarrow> js_error + (jsval \<times> jsval \<times> jsval)" where
  "destructure requestBody =
     (if nullish requestBody then Inl TypeError
      else Inr (opt_prop requestBody ''promptText'',
                opt_prop requestBody ''image'',
                opt_prop requestBody ''model''))"

text \<open>The condition of line 81, evaluated left to right with the short circuit of
  \<^verbatim>\<open>||\<close>.\<close>

definition missing_params :: "jsval \<Rightarrow> jsval \<Rightarrow> jsval \<Rightarrow> js_error + bool" where
  "missing_params promptText image' model =
     (if \<not> truthy promptText then Inr True
      else if \<not> truthy image' then Inr True
      else
        (case get_prop image' ''data'' of
           Inl e \<Rightarrow> Inl e
         | Inr d \<Rightarrow>
             if \<not> truthy d then Inr True
             else
               (case get_prop image' ''mimeType'' of
                  Inl e \<Rightarrow> Inl e
                | Inr m \<Rightarrow> if \<not> truthy m then Inr True else Inr (\<not> truthy model))))"

text \<open>Lines 89 to 108.\<close>

definition payload :: "jsval \<Rightarrow> jsval \<Rightarrow> js_error + jsval" where
  "payload promptText image' =
     (case get_prop image' ''mimeType'' of
        Inl e \<Rightarrow> Inl e
      | Inr mimeType \<Rightarrow>
          (case get_prop image' ''data'' of
             Inl e \<Rightarrow> Inl e
           | Inr data \<Rightarrow>
               Inr (JObj
                 [(''contents'',
                   JArr [JObj
                     [(''role'', JStr ''user''),
                      (''parts'',
                       JArr [JObj [(''text'', promptText)],
                             JObj [(''inlineData'',
                                    JObj [(''mimeType'', mimeType), (''data'', data)])]])]]),
                  (''generationConfig'',
                   JObj [(''responseModalities'', JArr [JStr ''TEXT'', JStr ''IMAGE''])])])))"

text \<open>Line 116: \<^verbatim>\<open>response.json()\<close> reads the body and decodes it.\<close>

definition response_json :: "(string \<Rightarrow> jsval option) \<Rightarrow> response \<Rightarrow> js_error + jsval" where
  "response_json JSON_parse r =
     (case response_text r of
        None \<Rightarrow> Inl BodyReadFailed
      | Some t \<Rightarrow> (case JSON_parse t of None \<Rightarrow> Inl SyntaxError | Some v \<Rightarrow> Inr v))"

text \<open>Line 119. \<^verbatim>\<open>parts?.find\<close> is undefined on undefined and null, the search on an
  array, and a TypeError on any other value (it has no callable \<^verbatim>\<open>find\<close>).\<close>

definition extract_base64Data :: "jsval \<Rightarrow> js_error + jsval" where
  "extract_base64Data result =
     (let parts = opt_prop (opt_prop (opt_index0 (opt_prop result ''candidates'')) ''content'') ''parts''
      in if nullish parts then Inr JUndefined
         else
           (case parts of
              JArr ps \<Rightarrow>
                (case array_find ps of
                   Inl e \<Rightarrow> Inl e
                 | Inr p \<Rightarrow> Inr (opt_prop (opt_prop p ''inlineData'') ''data''))
            | _ \<Rightarrow> Inl TypeError))"

text \<open>Line 127: \<^verbatim>\<open>result.candidates\<close> is read without \<^verbatim>\<open>?.\<close>.\<close>

definition safety_is_high :: "jsval \<Rightarrow> js_error + bool" where
  "safety_is_high result =
     (case get_prop result ''candidates'' of
        Inl e \<Rightarrow> Inl e
      | Inr candidates \<Rightarrow>
          Inr (opt_prop (opt_index0 (opt_prop (opt_index0 candidates) ''safetyRatings''))
                 ''probability'' = JStr ''HIGH''))"

text \<open>Lines 116 to 135, on what \<^verbatim>\<open>fetchWithRetry\<close> returned.\<close>

definition respond :: "(string \<Rightarrow> jsval option) \<Rightarrow> response option \<Rightarrow> js_error + reply" where
  "respond JSON_parse response =
     (case response of
        None \<Rightarrow> Inl TypeError
      | Some r \<Rightarrow>
          (case response_json JSON_parse r of
             Inl e \<Rightarrow> Inl e
           | Inr result \<Rightarrow>
               (case extract_base64Data result of
                  Inl e \<Rightarrow> Inl e
                | Inr base64Data \<Rightarrow>
                    if truthy base64Data
                    then Inr \<lparr>res_status = 200, res_json = SuccessBody base64Data\<rparr>
                    else
                      (case safety_is_high result of
                         Inl e \<Rightarrow> Inl e
                       | Inr high \<Rightarrow>
                           Inr \<lparr>res_status = 500,
                                res_json = ErrorDetailsBody
                                  (if high then BlockedBySafety else GenerationFailed) result\<rparr>))))"

text \<open>The \<^verbatim>\<open>try\<close> block of lines 63 to 136. \<open>fetch u p n\<close> is the outcome of the
  \<open>n\<close>-th call of \<^verbatim>\<open>fetch\<close> for the URL \<open>u\<close> and the payload \<open>p\<close>.\<close>

definition handler_try ::
  "string \<Rightarrow> (string \<Rightarrow> jsval option) \<Rightarrow> (url \<Rightarrow> jsval \<Rightarrow> nat \<Rightarrow> fetch_outcome) \<Rightarrow> (nat \<Rightarrow> real) \<Rightarrow>
   http_request \<Rightarrow> (js_error + reply) \<times> event list"
where
  "handler_try key JSON_parse fetch random req =
     (case requestBody_of JSON_parse (body req) of
        (requestBody, tr1) \<Rightarrow>
          (case destructure requestBody of
             Inl e \<Rightarrow> (Inl e, tr1)
           | Inr (promptText, image', model) \<Rightarrow>
               (case missing_params promptText image' model of
                  Inl e \<Rightarrow> (Inl e, tr1)
                | Inr missing \<Rightarrow>
                    if missing
                    then (Inr \<lparr>res_status = 400, res_json = ErrorBody MissingParams\<rparr>, tr1)
                    else
                      (case payload promptText image' of
                         Inl e \<Rightarrow> (Inl e, tr1)
                       | Inr p \<Rightarrow>
                           (case fetchWithRetry (fetch (ApiUrl model key) p) random default_maxRetries of
                              (Inl e, tr2) \<Rightarrow> (Inl e, tr1 @ tr2)
                            | (Inr response, tr2) \<Rightarrow> (respond JSON_parse response, tr1 @ tr2))))))"

text \<open>The handler: the two guards of lines 54 and 59, then the \<^verbatim>\<open>try\<close> block with the
  \<^verbatim>\<open>catch\<close> of line 137. The result is the one response sent and the effects observed.\<close>

definition handler ::
  "string option \<Rightarrow> (string \<Rightarrow> jsval option) \<Rightarrow> (url \<Rightarrow> jsval \<Rightarrow> nat \<Rightarrow> fetch_outcome) \<Rightarrow> (nat \<Rightarrow> real) \<Rightarrow>
   http_request \<Rightarrow> reply \<times> event list"
where
  "handler env JSON_parse fetch random req =
     (if API_KEY env = [] then (\<lparr>res_status = 500, res_json = ErrorBody KeyNotSet\<rparr>, [])
      else if req_method req \<noteq> ''POST'' then (\<lparr>res_status = 405, res_json = ErrorBody PostOnly\<rparr>, [])
      else
        (case handler_try (API_KEY env) JSON_parse fetch random req of
           (Inr rep, tr) \<Rightarrow> (rep, tr)
         | (Inl e, tr) \<Rightarrow> (\<lparr>res_status = 500, res_json = ErrorBody (InternalError e)\<rparr>, tr)))"

subsection \<open>Vocabulary of the specification\<close>

text \<open>The attempt indices of a run, in order.\<close>

fun attempts_of :: "event list \<Rightarrow> nat list" where
  "attempts_of [] = []"
| "attempts_of (Attempt n # es) = n # attempts_of es"
| "attempts_of (e # es) = attempts_of es"

text \<open>The glossary's retriable failure: HTTP 429, HTTP 5xx, or a transport error.\<close>

fun is_retriable :: "fetch_outcome \<Rightarrow> bool" where
  "is_retriable (Rejected m) = True"
| "is_retriable (Responded r) =
     (response_status r = 429 \<or> (500 \<le> response_status r \<and> response_status r \<le> 599))"

fun is_2xx :: "fetch_outcome \<Rightarrow> bool" where
  "is_2xx (Rejected m) = False"
| "is_2xx (Responded r) = (200 \<le> response_status r \<and> response_status r \<le> 299)"

text \<open>The error each retriable outcome raises in the loop.\<close>

fun error_of :: "fetch_outcome \<Rightarrow> js_error" where
  "error_of (Rejected m) = FetchRejected m"
| "error_of (Responded r) = RetriableHTTPError (response_status r)"

text \<open>The four leaf fields of the inbound request are present and truthy.\<close>

definition required_present :: "jsval \<Rightarrow> bool" where
  "required_present b =
     (truthy (opt_prop b ''promptText'') \<and>
      truthy (opt_prop (opt_prop b ''image'') ''data'') \<and>
      truthy (opt_prop (opt_prop b ''image'') ''mimeType'') \<and>
      truthy (opt_prop b ''model''))"





subsection \<open>Sample environments\<close>

text \<open>An upstream that answers every call with the same status and body, a decoder
  that rejects every text, a decoder that accepts the text \<^verbatim>\<open>null\<close> only, and constant
  jitter.\<close>

definition upstream_always :: "nat \<Rightarrow> string \<Rightarrow> nat \<Rightarrow> fetch_outcome" where
  "upstream_always st b n = Responded \<lparr>response_status = st, response_text = Some b\<rparr>"

definition fetch_always :: "nat \<Rightarrow> string \<Rightarrow> url \<Rightarrow> jsval \<Rightarrow> nat \<Rightarrow> fetch_outcome" where
  "fetch_always st b u p n = upstream_always st b n"

definition parse_fails :: "string \<Rightarrow> jsval option" where
  "parse_fails s = None"

definition parse_null :: "string \<Rightarrow> jsval option" where
  "parse_null s = (if s = ''null'' then Some JNull else None)"

definition jitter_half :: "nat \<Rightarrow> real" where
  "jitter_half n = 1 / 2"

definition jitter_zero :: "nat \<Rightarrow> real" where
  "jitter_zero n = 0"

text \<open>The largest multiple of \<open>2^-52\<close> below 1 as every value of \<^verbatim>\<open>Math.random()\<close>.\<close>

definition jitter_max :: "nat \<Rightarrow> real" where
  "jitter_max n = 1 - 1 / 2 ^ 52"

text \<open>An upstream that answers 503 to its first \<open>k\<close> calls and then a fixed response, a
  well-formed request, a provider response with two candidates (the first has a text
  part and an inline-data part), and a decoder that knows the sample responses only.\<close>

definition upstream_flaky :: "nat \<Rightarrow> nat \<Rightarrow> string \<Rightarrow> nat \<Rightarrow> fetch_outcome" where
  "upstream_flaky k st b n =
     (if n < k then Responded \<lparr>response_status = 503, response_text = Some ''busy''\<rparr>
      else Responded \<lparr>response_status = st, response_text = Some b\<rparr>)"

definition fetch_flaky :: "nat \<Rightarrow> nat \<Rightarrow> string \<Rightarrow> url \<Rightarrow> jsval \<Rightarrow> nat \<Rightarrow> fetch_outcome" where
  "fetch_flaky k st b u p n = upstream_flaky k st b n"

definition sample_result :: jsval where
  "sample_result =
     JObj [(''candidates'',
       JArr [JObj [(''content'',
               JObj [(''parts'',
                 JArr [JObj [(''text'', JStr ''done'')],
                       JObj [(''inlineData'',
                              JObj [(''mimeType'', JStr ''image/png''), (''data'', JStr ''QUJD'')])]])])],
             JObj [(''content'',
               JObj [(''parts'',
                 JArr [JObj [(''inlineData'',
                              JObj [(''mimeType'', JStr ''image/png''), (''data'', JStr ''WFla'')])]])])]])]"

text \<open>A response whose inline data is the boolean \<^verbatim>\<open>true\<close>, and one whose first
  inline-data part has no data while its second one has.\<close>

definition flag_result :: jsval where
  "flag_result =
     JObj [(''candidates'',
       JArr [JObj [(''content'',
         JObj [(''parts'',
           JArr [JObj [(''inlineData'',
                        JObj [(''mimeType'', JStr ''image/png''), (''data'', JBool True)])]])])]])]"

definition late_result :: jsval where
  "late_result =
     JObj [(''candidates'',
       JArr [JObj [(''content'',
         JObj [(''parts'',
           JArr [JObj [(''inlineData'', JObj [(''mimeType'', JStr ''image/png'')])],
                 JObj [(''inlineData'',
                        JObj [(''mimeType'', JStr ''image/png''), (''data'', JStr ''QUJD'')])]])])]])]"

definition parse_sample :: "string \<Rightarrow> jsval option" where
  "parse_sample s =
     (if s = ''img'' then Some sample_result
      else if s = ''flag'' then Some flag_result
      else if s = ''late'' then Some late_result
      else None)"

definition sample_request :: http_request where
  "sample_request =
     \<lparr>req_method = ''POST'',
      body = JObj [(''promptText'', JStr ''wave''),
                   (''image'', JObj [(''data'', JStr ''aGk=''), (''mimeType'', JStr ''image/png'')]),
                   (''model'', JStr ''gemini'')]\<rparr>"

section \<open>Properties of the retry loop\<close>

text \<open>The loop's defining equation is unfolded by hand, one iteration at a time.\<close>

declare fetchWithRetry_loop.simps [simp del]

lemmas eval_defs =
  fetchWithRetry_def fetchWithRetry_loop.simps try_block_def response_ok_def
  upstream_always_def fetch_always_def upstream_flaky_def fetch_flaky_def
  jitter_zero_def jitter_half_def default_maxRetries_def backoff_delay_def to_double_def

subsection \<open>Rounding to binary64\<close>

lemma ties_even_int [simp]: "ties_even (of_int k) = k"
  by (simp add: ties_even_def)

lemma ties_even_bounds: "\<lfloor>z\<rfloor> \<le> ties_even z \<and> ties_even z \<le> \<lfloor>z\<rfloor> + 1"
  by (simp add: ties_even_def Let_def)

lemma ties_even_mono:
  assumes "z \<le> w"
  shows "ties_even z \<le> ties_even w"
proof (cases "\<lfloor>z\<rfloor> = \<lfloor>w\<rfloor>")
  case True
  have "z - of_int \<lfloor>z\<rfloor> \<le> w - of_int \<lfloor>w\<rfloor>"
    using assms True by simp
  then show ?thesis
    using True by (auto simp: ties_even_def Let_def)
next
  case False
  then have lt: "\<lfloor>z\<rfloor> < \<lfloor>w\<rfloor>"
    using floor_mono [OF assms] by linarith
  have "ties_even z \<le> \<lfloor>z\<rfloor> + 1"
    using ties_even_bounds by blast
  also have "\<dots> \<le> \<lfloor>w\<rfloor>" using lt by simp
  also have "\<dots> \<le> ties_even w" using ties_even_bounds by blast
  finally show ?thesis .
qed

lemma ties_even_ge: "of_int k \<le> z \<Longrightarrow> k \<le> ties_even z"
  using ties_even_mono [of "of_int k" z] by simp

lemma ties_even_le: "z \<le> of_int k \<Longrightarrow> ties_even z \<le> k"
  using ties_even_mono [of z "of_int k"] by simp

lemma floorlog_upper: "n < 2 ^ floorlog 2 n"
proof (cases "n = 0")
  case True
  then show ?thesis by simp
next
  case False
  then show ?thesis using floorlog_bounds [of n 2] by simp
qed

lemma floorlog_lower: "0 < n \<Longrightarrow> 2 ^ (floorlog 2 n - 1) \<le> n"
  using floorlog_bounds [of n 2] by simp

lemma floorlog_between:
  assumes "2 ^ k \<le> n" "n < 2 ^ Suc k"
  shows "floorlog 2 n = Suc k"
proof -
  have "floorlog 2 n \<le> Suc k"
    using assms(2) by (intro floorlog_leI) simp_all
  moreover have "Suc k \<le> floorlog 2 n"
    using assms(1) by (intro floorlog_ge_SucI) simp_all
  ultimately show ?thesis by simp
qed

lemma round64_exact:
  assumes "m < 2 ^ 53"
  shows "round64 (of_nat m * 2 ^ k / 2 ^ 1074) = of_nat m * 2 ^ k / 2 ^ 1074"
proof -
  define n where "n = m * 2 ^ k"
  define p where "p = floorlog 2 n - 53"
  have X: "(of_nat m * 2 ^ k / 2 ^ 1074) * 2 ^ 1074 = (of_nat n :: real)"
    by (simp add: n_def)
  have fl: "nat \<lfloor>(of_nat n :: real)\<rfloor> = n"
    by (metis floor_of_nat nat_int)
  have "n < 2 ^ (53 + k)"
    using assms by (simp add: n_def power_add)
  then have "floorlog 2 n \<le> 53 + k"
    by (intro floorlog_leI) simp_all
  then have pk: "p \<le> k" by (simp add: p_def)
  then obtain j where j: "k = p + j"
    using le_Suc_ex by blast
  have q: "(of_nat n :: real) / 2 ^ p = of_int (int (m * 2 ^ j))"
    by (simp add: n_def j power_add)
  have "round64 (of_nat m * 2 ^ k / 2 ^ 1074) =
      of_int (ties_even ((of_nat n :: real) / 2 ^ p)) * 2 ^ p / 2 ^ 1074"
    unfolding round64_def Let_def X fl p_def ..
  also have "\<dots> = of_int (int (m * 2 ^ j)) * 2 ^ p / 2 ^ 1074"
    unfolding q ties_even_int ..
  also have "\<dots> = of_nat m * 2 ^ k / 2 ^ 1074"
    by (simp add: j power_add)
  finally show ?thesis .
qed

lemma round64_binade:
  assumes "2 ^ e \<le> x" "x < 2 ^ Suc e"
  shows "round64 x = of_int (ties_even (x * 2 ^ 52 / 2 ^ e)) * 2 ^ e / 2 ^ 52"
proof -
  let ?X = "x * 2 ^ 1074"
  let ?n = "nat \<lfloor>?X\<rfloor>"
  have lo: "(2::real) ^ (e + 1074) \<le> ?X"
    using assms(1) by (simp add: power_add)
  have hi: "?X < 2 ^ Suc (e + 1074)"
    using assms(2) by (simp add: power_add)
  have "(2::int) ^ (e + 1074) \<le> \<lfloor>?X\<rfloor>"
    using lo by (simp add: le_floor_iff)
  then have nlo: "2 ^ (e + 1074) \<le> ?n"
    by (simp add: le_nat_iff)
  have "\<lfloor>?X\<rfloor> < 2 ^ Suc (e + 1074)"
    using hi by (simp add: floor_less_iff)
  then have nhi: "?n < 2 ^ Suc (e + 1074)"
    by (simp add: nat_less_iff)
  have L: "floorlog 2 ?n = Suc (e + 1074)"
    by (rule floorlog_between [OF nlo nhi])
  have p: "floorlog 2 ?n - 53 = e + 1022"
    unfolding L by simp
  have q: "?X / 2 ^ (e + 1022) = x * 2 ^ 52 / 2 ^ e"
    by (simp add: power_add)
  have "round64 x = of_int (ties_even (?X / 2 ^ (e + 1022))) * 2 ^ (e + 1022) / 2 ^ 1074"
    unfolding round64_def Let_def p ..
  also have "\<dots> = of_int (ties_even (x * 2 ^ 52 / 2 ^ e)) * 2 ^ (e + 1022) / 2 ^ 1074"
    unfolding q ..
  also have "\<dots> = of_int (ties_even (x * 2 ^ 52 / 2 ^ e)) * 2 ^ e / 2 ^ 52"
    by (simp add: power_add)
  finally show ?thesis .
qed

lemma round64_mono:
  assumes "0 \<le> x" "x \<le> y"
  shows "round64 x \<le> round64 y"
proof -
  define X where "X = x * 2 ^ 1074"
  define Y where "Y = y * 2 ^ 1074"
  define nx where "nx = nat \<lfloor>X\<rfloor>"
  define ny where "ny = nat \<lfloor>Y\<rfloor>"
  define Lx where "Lx = floorlog 2 nx"
  define Ly where "Ly = floorlog 2 ny"
  define px where "px = Lx - 53"
  define py where "py = Ly - 53"
  define Sx where "Sx = (of_int (ties_even (X / 2 ^ px)) :: real) * 2 ^ px"
  define Sy where "Sy = (of_int (ties_even (Y / 2 ^ py)) :: real) * 2 ^ py"
  have rx: "round64 x = Sx / 2 ^ 1074"
    by (simp add: round64_def Let_def Sx_def px_def Lx_def nx_def X_def)
  have ry: "round64 y = Sy / 2 ^ 1074"
    by (simp add: round64_def Let_def Sy_def py_def Ly_def ny_def Y_def)
  have X0: "0 \<le> X" using assms(1) by (simp add: X_def)
  have XY: "X \<le> Y" using assms(2) by (simp add: X_def Y_def)
  have nxy: "nx \<le> ny"
    unfolding nx_def ny_def using XY by (intro nat_mono floor_mono)
  have Lxy: "Lx \<le> Ly"
    unfolding Lx_def Ly_def using nxy by (rule floorlog_mono)
  have "Sx \<le> Sy"
  proof (cases "px = py")
    case True
    have "X / 2 ^ py \<le> Y / 2 ^ py"
      using XY by (simp add: divide_right_mono)
    then have "ties_even (X / 2 ^ py) \<le> ties_even (Y / 2 ^ py)"
      by (rule ties_even_mono)
    then have "(of_int (ties_even (X / 2 ^ py)) :: real) \<le> of_int (ties_even (Y / 2 ^ py))"
      by simp
    then show ?thesis
      unfolding Sx_def Sy_def True by (simp add: mult_right_mono)
  next
    case False
    then have lt: "Lx < Ly" "53 < Ly"
      using Lxy by (simp_all add: px_def py_def)
    have pxL: "px \<le> Lx" by (simp add: px_def)
    have pyL: "py \<le> Ly - 1" using lt(2) by (simp add: py_def)
    \<comment> \<open>the smaller argument rounds to at most the top of its binade\<close>
    have "\<lfloor>X\<rfloor> = int nx" using X0 by (simp add: nx_def)
    moreover have "nx < 2 ^ Lx" unfolding Lx_def by (rule floorlog_upper)
    ultimately have "\<lfloor>X\<rfloor> < 2 ^ Lx"
      by (metis of_nat_less_iff of_nat_numeral of_nat_power)
    then have "X < 2 ^ Lx"
      by (simp add: floor_less_iff)
    then have "X / 2 ^ px \<le> 2 ^ Lx / 2 ^ px"
      by (simp add: divide_right_mono)
    also have "\<dots> = (2::real) ^ (Lx - px)"
      using pxL by (simp add: power_diff)
    also have "\<dots> = of_int (2 ^ (Lx - px))" by simp
    finally have "ties_even (X / 2 ^ px) \<le> 2 ^ (Lx - px)"
      by (rule ties_even_le)
    then have "(of_int (ties_even (X / 2 ^ px)) :: real) \<le> 2 ^ (Lx - px)"
      by (metis of_int_le_iff of_int_numeral of_int_power)
    then have "Sx \<le> 2 ^ (Lx - px) * 2 ^ px"
      unfolding Sx_def by (simp add: mult_right_mono)
    also have "\<dots> = (2::real) ^ Lx"
      using pxL by (simp flip: power_add)
    finally have sx: "Sx \<le> 2 ^ Lx" .
    \<comment> \<open>the larger argument rounds to at least the bottom of its binade\<close>
    define M where "M = Ly - 1"
    have pyM: "py \<le> M" using pyL by (simp add: M_def)
    have LxM: "Lx \<le> M" using lt(1) by (simp add: M_def)
    have "0 < ny"
      using lt(2) by (cases "ny = 0") (simp_all add: Ly_def floorlog_def)
    then have "2 ^ M \<le> ny"
      unfolding Ly_def M_def by (rule floorlog_lower)
    then have "(2::real) ^ M \<le> of_nat ny"
      by (metis of_nat_le_iff of_nat_numeral of_nat_power)
    also have "(of_nat ny :: real) \<le> Y"
      using X0 XY by (simp add: ny_def)
    finally have Ylo: "2 ^ M \<le> Y" .
    obtain j where j: "M = py + j"
      using pyM le_Suc_ex by blast
    have "(of_int (2 ^ j) :: real) = 2 ^ M / 2 ^ py"
      by (simp add: j power_add)
    also have "\<dots> \<le> Y / 2 ^ py"
      using Ylo by (simp add: divide_right_mono)
    finally have "2 ^ j \<le> ties_even (Y / 2 ^ py)"
      by (rule ties_even_ge)
    then have "(2::real) ^ j \<le> of_int (ties_even (Y / 2 ^ py))"
      by (metis of_int_le_iff of_int_numeral of_int_power)
    then have "2 ^ j * 2 ^ py \<le> Sy"
      unfolding Sy_def by (simp add: mult_right_mono)
    moreover have "(2::real) ^ j * 2 ^ py = 2 ^ M"
      by (simp add: j power_add)
    ultimately have sy: "2 ^ M \<le> Sy" by simp
    have "(2::real) ^ Lx \<le> 2 ^ M"
      using LxM by (intro power_increasing) simp_all
    with sx sy show ?thesis by linarith
  qed
  then show ?thesis
    unfolding rx ry by (simp add: divide_right_mono)
qed

lemma round64_0 [simp]: "round64 0 = 0"
  using round64_exact [of 0 0] by simp

lemma round64_1000 [simp]: "round64 1000 = 1000"
  using round64_exact [of 125 1077] by simp

lemma round64_pow2: "round64 (2 ^ a) = 2 ^ a"
  using round64_exact [of 1 "a + 1074"] by (simp add: power_add)

lemma round64_base: "round64 (2 ^ a * 1000) = 2 ^ a * 1000"
  using round64_exact [of 125 "a + 1077"] by (simp add: power_add mult.commute)

lemma round64_scaled:
  assumes "m < 2 ^ 53"
  shows "round64 (of_nat m * 2 ^ k) = of_nat m * 2 ^ k"
  using round64_exact [OF assms, of "k + 1074"] by (simp add: power_add)

lemma round64_nat: "n < 2 ^ 53 \<Longrightarrow> round64 (of_nat n) = of_nat n"
  using round64_scaled [of n 0] by simp

lemma round64_numeral [simp]:
  "(numeral w :: nat) < 2 ^ 53 \<Longrightarrow> round64 (numeral w) = numeral w"
  using round64_nat [of "numeral w"] by simp

lemma round64_1 [simp]: "round64 1 = 1"
  using round64_nat [of 1] by simp

lemma round64_base_plus_1000:
  assumes "a \<le> 46"
  shows "round64 (2 ^ a * 1000 + 1000) = 2 ^ a * 1000 + 1000"
proof -
  have "(2::nat) ^ a \<le> 2 ^ 46"
    using assms by (intro power_increasing) simp_all
  then have "125 * (2 ^ a + 1) \<le> 125 * ((2::nat) ^ 46 + 1)"
    by (intro mult_le_mono2 add_mono) simp_all
  also have "\<dots> < 2 ^ 53" by simp
  finally have "125 * (2 ^ a + 1) < (2::nat) ^ 53" .
  then show ?thesis
    using round64_scaled [of "125 * (2 ^ a + 1)" 3] by (simp add: algebra_simps)
qed

lemma round64_top_47: "round64 (2 ^ 47 * 1000 + 1000) = 2 ^ 47 * 1000 + 992"
  using round64_binade [of 56 "2 ^ 47 * 1000 + 1000"]
  by (simp add: ties_even_def Let_def)

lemma round64_top_48: "round64 (2 ^ 48 * 1000 + 1000) = 2 ^ 48 * 1000 + 992"
  using round64_binade [of 57 "2 ^ 48 * 1000 + 1000"]
  by (simp add: ties_even_def Let_def)

lemma round64_top:
  assumes "a \<le> 48"
  shows "round64 (2 ^ a * 1000 + 1000) \<le> 2 ^ a * 1000 + 1000"
proof -
  consider "a \<le> 46" | "a = 47" | "a = 48"
    using assms by linarith
  then show ?thesis
  proof cases
    case 1
    then show ?thesis by (simp add: round64_base_plus_1000)
  next
    case 2
    then show ?thesis using round64_top_47 by simp
  next
    case 3
    then show ?thesis using round64_top_48 by simp
  qed
qed

lemma jitter_bounds:
  assumes "0 \<le> r" "r < 1"
  shows "0 \<le> round64 (r * 1000) \<and> round64 (r * 1000) \<le> 1000"
proof -
  have "round64 0 \<le> round64 (r * 1000)"
    using assms(1) by (intro round64_mono) simp_all
  moreover have "round64 (r * 1000) \<le> round64 1000"
    using assms by (intro round64_mono) simp_all
  ultimately show ?thesis by simp
qed

lemma backoff_delay_bounds:
  assumes "a \<le> 48" "0 \<le> r" "r < 1"
  shows "\<exists>d. backoff_delay a r = Finite d \<and> 2 ^ a * 1000 \<le> d \<and> d \<le> 2 ^ a * 1000 + 1000"
proof -
  define base :: real where "base = 2 ^ a * 1000"
  define j where "j = round64 (r * 1000)"
  define d where "d = round64 (base + j)"
  have pa: "(2::real) ^ a \<le> 2 ^ 48"
    using assms(1) by (intro power_increasing) simp_all
  have base48: "base \<le> 2 ^ 48 * 1000"
    using pa by (simp add: base_def)
  have base0: "0 \<le> base" by (simp add: base_def)
  have j: "0 \<le> j" "j \<le> 1000"
    using jitter_bounds [OF assms(2,3)] by (simp_all add: j_def)
  have "round64 base \<le> d"
    unfolding d_def using base0 j(1) by (intro round64_mono) simp_all
  then have lo: "base \<le> d"
    by (simp add: base_def round64_base)
  have "d \<le> round64 (base + 1000)"
    unfolding d_def using base0 j by (intro round64_mono) simp_all
  also have "\<dots> \<le> base + 1000"
    unfolding base_def by (rule round64_top [OF assms(1)])
  finally have hi: "d \<le> base + 1000" .
  have fin_pow: "to_double (2 ^ a) = Finite (2 ^ a)"
    using pa by (simp add: to_double_def round64_pow2)
  have fin_base: "to_double (2 ^ a * 1000) = Finite base"
    using base48 by (simp add: to_double_def round64_base base_def)
  have fin_j: "to_double (r * 1000) = Finite j"
    using j(2) by (simp add: to_double_def j_def)
  have fin_d: "to_double (base + j) = Finite d"
    using hi base48 by (simp add: to_double_def d_def)
  have "backoff_delay a r = Finite d"
    by (simp add: backoff_delay_def fin_pow fin_base fin_j fin_d)
  then show ?thesis
    using lo hi by (simp add: base_def)
qed

lemma backoff_delay_reaches_upper_end: "backoff_delay 1 (1 - 1 / 2 ^ 52) = Finite 3000"
proof -
  have j: "round64 ((1 - 1 / 2 ^ 52) * 1000) = 1000 - 1 / 2 ^ 42"
    using round64_binade [of 9 "(1 - 1 / 2 ^ 52) * 1000"]
    by (simp add: ties_even_def Let_def)
  have s: "round64 (2000 + (1000 - 1 / 2 ^ 42)) = 3000"
    using round64_binade [of 11 "2000 + (1000 - 1 / 2 ^ 42)"]
    by (simp add: ties_even_def Let_def)
  have pw: "to_double (2 ^ 1) = Finite 2"
    by (simp add: to_double_def)
  have base: "double_mult (Finite 2) (Finite 1000) = Finite 2000"
    by (simp add: to_double_def)
  have jit: "double_mult (Finite (1 - 1 / 2 ^ 52)) (Finite 1000) = Finite (1000 - 1 / 2 ^ 42)"
    unfolding double_mult.simps to_double_def j by simp
  have sum: "double_add (Finite 2000) (Finite (1000 - 1 / 2 ^ 42)) = Finite 3000"
    unfolding double_add.simps to_double_def s by simp
  show ?thesis
    unfolding backoff_delay_def pw base jit sum ..
qed

lemma backoff_delay_beyond_upper_end:
  "backoff_delay 49 (1 - 1 / 2 ^ 10) = Finite (2 ^ 49 * 1000 + 1024)"
proof -
  have j: "round64 ((1 - 1 / 2 ^ 10) * 1000) = 127875 / 128"
    using round64_binade [of 9 "(1 - 1 / 2 ^ 10) * 1000"]
    by (simp add: ties_even_def Let_def)
  have s: "round64 (2 ^ 49 * 1000 + 127875 / 128) = 2 ^ 49 * 1000 + 1024"
    using round64_binade [of 58 "2 ^ 49 * 1000 + 127875 / 128"]
    by (simp add: ties_even_def Let_def)
  have pw: "to_double (2 ^ 49) = Finite (2 ^ 49)"
    unfolding to_double_def round64_pow2 by simp
  have base: "double_mult (Finite (2 ^ 49)) (Finite 1000) = Finite (2 ^ 49 * 1000)"
    unfolding double_mult.simps to_double_def round64_base by simp
  have jit: "double_mult (Finite (1 - 1 / 2 ^ 10)) (Finite 1000) = Finite (127875 / 128)"
    unfolding double_mult.simps to_double_def j by simp
  have sum: "double_add (Finite (2 ^ 49 * 1000)) (Finite (127875 / 128)) = Finite (2 ^ 49 * 1000 + 1024)"
    unfolding double_add.simps to_double_def s by simp
  show ?thesis
    unfolding backoff_delay_def pw base jit sum ..
qed

subsection \<open>The loop\<close>

lemma try_block_retriable: "is_retriable out \<Longrightarrow> try_block out = Inl (error_of out)"
  by (cases out) (auto simp: try_block_def response_ok_def)

lemma try_block_not_2xx: "\<not> is_2xx out \<Longrightarrow> \<exists>e. try_block out = Inl e"
  by (cases out) (auto simp: try_block_def response_ok_def split: option.splits)


lemma loop_unfold_fail:
  assumes "attempt < maxRetries" "try_block (fetch attempt) = Inl e"
  shows "fetchWithRetry_loop fetch random maxRetries attempt =
     (if Suc attempt = maxRetries then (Inl e, [Attempt attempt])
      else (fst (fetchWithRetry_loop fetch random maxRetries (Suc attempt)),
            Attempt attempt # Delay (backoff_delay attempt (random attempt))
              # snd (fetchWithRetry_loop fetch random maxRetries (Suc attempt))))"
proof -
  have eq: "(int attempt = int maxRetries - 1) = (Suc attempt = maxRetries)"
    by linarith
  show ?thesis
    using assms
    by (subst fetchWithRetry_loop.simps) (simp add: eq split: prod.splits)
qed

lemma loop_unfold_return:
  assumes "attempt < maxRetries" "try_block (fetch attempt) = Inr r"
  shows "fetchWithRetry_loop fetch random maxRetries attempt = (Inr (Some r), [Attempt attempt])"
  using assms by (subst fetchWithRetry_loop.simps) simp

lemma loop_unfold_done:
  assumes "\<not> attempt < maxRetries"
  shows "fetchWithRetry_loop fetch random maxRetries attempt = (Inr None, [])"
  using assms by (subst fetchWithRetry_loop.simps) simp

lemma loop_all_fail:
  assumes "attempt < maxRetries"
    and "\<And>i. attempt \<le> i \<Longrightarrow> i < maxRetries \<Longrightarrow> try_block (fetch i) = Inl (err i)"
  shows "fst (fetchWithRetry_loop fetch random maxRetries attempt) = Inl (err (maxRetries - 1)) \<and>
         attempts_of (snd (fetchWithRetry_loop fetch random maxRetries attempt)) = [attempt..<maxRetries]"
  using assms
proof (induction "maxRetries - attempt" arbitrary: attempt)
  case 0
  then show ?case by simp
next
  case (Suc d)
  have here: "try_block (fetch attempt) = Inl (err attempt)"
    using Suc.prems by simp
  show ?case
  proof (cases "Suc attempt = maxRetries")
    case True
    then have "maxRetries - 1 = attempt" by simp
    with True show ?thesis
      using loop_unfold_fail [where fetch=fetch and random=random, OF Suc.prems(1) here]
      by (simp add: upt_rec)
  next
    case False
    then have lt: "Suc attempt < maxRetries" using Suc.prems(1) by simp
    have d: "d = maxRetries - Suc attempt" using Suc.hyps(2) by simp
    have ih: "fst (fetchWithRetry_loop fetch random maxRetries (Suc attempt)) = Inl (err (maxRetries - 1)) \<and>
         attempts_of (snd (fetchWithRetry_loop fetch random maxRetries (Suc attempt))) = [Suc attempt..<maxRetries]"
      using Suc.hyps(1) [OF d lt] Suc.prems(2) by simp
    show ?thesis
      using loop_unfold_fail [where fetch=fetch and random=random, OF Suc.prems(1) here] False ih Suc.prems(1)
      by (simp add: upt_rec [of attempt])
  qed
qed


lemma loop_attempts_cap:
  "\<exists>k. k \<le> max attempt maxRetries \<and>
       attempts_of (snd (fetchWithRetry_loop fetch random maxRetries attempt)) = [attempt..<k]"
proof (induction "maxRetries - attempt" arbitrary: attempt)
  case 0
  then have "\<not> attempt < maxRetries" by simp
  then show ?case
    using loop_unfold_done [where fetch=fetch and random=random and attempt=attempt and maxRetries=maxRetries] by auto
next
  case (Suc d)
  then have am: "attempt < maxRetries" by simp
  show ?case
  proof (cases "try_block (fetch attempt)")
    case (Inr r)
    have "attempts_of (snd (fetchWithRetry_loop fetch random maxRetries attempt)) = [attempt..<Suc attempt]"
      using loop_unfold_return [where fetch=fetch and random=random, OF am Inr] by simp
    moreover have "Suc attempt \<le> max attempt maxRetries" using am by simp
    ultimately show ?thesis by blast
  next
    case (Inl e)
    show ?thesis
    proof (cases "Suc attempt = maxRetries")
      case True
      have "attempts_of (snd (fetchWithRetry_loop fetch random maxRetries attempt)) = [attempt..<Suc attempt]"
        using loop_unfold_fail [where fetch=fetch and random=random, OF am Inl] True [symmetric] by simp
      moreover have "Suc attempt \<le> max attempt maxRetries" using am by simp
      ultimately show ?thesis by blast
    next
      case False
      have d: "d = maxRetries - Suc attempt" using Suc.hyps(2) by simp
      obtain k where k: "k \<le> max (Suc attempt) maxRetries"
        "attempts_of (snd (fetchWithRetry_loop fetch random maxRetries (Suc attempt))) = [Suc attempt..<k]"
        using Suc.hyps(1) [OF d] by blast
      show ?thesis
      proof (cases "Suc attempt \<le> k")
        case True
        then have "attempts_of (snd (fetchWithRetry_loop fetch random maxRetries attempt)) = [attempt..<k]"
          using loop_unfold_fail [where fetch=fetch and random=random, OF am Inl] False k(2)
          by (simp add: upt_rec [of attempt])
        moreover have "k \<le> max attempt maxRetries" using k(1) am by simp
        ultimately show ?thesis by blast
      next
        case False2: False
        then have "attempts_of (snd (fetchWithRetry_loop fetch random maxRetries attempt)) = [attempt..<Suc attempt]"
          using loop_unfold_fail [where fetch=fetch and random=random, OF am Inl] False k(2)
          by simp
        moreover have "Suc attempt \<le> max attempt maxRetries" using am by simp
        ultimately show ?thesis by blast
      qed
    qed
  qed
qed


lemma loop_delays:
  "\<forall>i n. i < length (snd (fetchWithRetry_loop fetch random maxRetries attempt)) \<and>
           snd (fetchWithRetry_loop fetch random maxRetries attempt) ! i = Attempt n \<longrightarrow>
           attempt \<le> n \<and> (n = attempt \<longrightarrow> i = 0) \<and>
           (attempt < n \<longrightarrow> 1 \<le> i \<and>
              snd (fetchWithRetry_loop fetch random maxRetries attempt) ! (i - 1) =
                Delay (backoff_delay (n - 1) (random (n - 1))))"
proof (induction "maxRetries - attempt" arbitrary: attempt)
  case 0
  then have "\<not> attempt < maxRetries" by simp
  then show ?case
    using loop_unfold_done [where fetch=fetch and random=random and attempt=attempt and maxRetries=maxRetries]
    by simp
next
  case (Suc d)
  then have am: "attempt < maxRetries" by simp
  let ?tr = "snd (fetchWithRetry_loop fetch random maxRetries attempt)"
  let ?tr' = "snd (fetchWithRetry_loop fetch random maxRetries (Suc attempt))"
  let ?d0 = "backoff_delay attempt (random attempt)"
  consider (single) "?tr = [Attempt attempt]" | (retry) "?tr = Attempt attempt # Delay ?d0 # ?tr'"
  proof (cases "try_block (fetch attempt)")
    case (Inr r)
    then have "?tr = [Attempt attempt]"
      using loop_unfold_return [where fetch=fetch and random=random, OF am Inr] by simp
    then show ?thesis using single by blast
  next
    case (Inl e)
    show ?thesis
    proof (cases "Suc attempt = maxRetries")
      case True
      then have "?tr = [Attempt attempt]"
        using loop_unfold_fail [where fetch=fetch and random=random, OF am Inl] by simp
      then show ?thesis using single by blast
    next
      case False
      then have "?tr = Attempt attempt # Delay ?d0 # ?tr'"
        using loop_unfold_fail [where fetch=fetch and random=random, OF am Inl] by simp
      then show ?thesis using retry by blast
    qed
  qed
  then show ?case
  proof cases
    case single
    then show ?thesis by simp
  next
    case retry
    have d: "d = maxRetries - Suc attempt" using Suc.hyps(2) by simp
    note ih = Suc.hyps(1) [OF d]
    show ?thesis
    proof (intro allI impI)
      fix i n
      assume a: "i < length ?tr \<and> ?tr ! i = Attempt n"
      show "attempt \<le> n \<and> (n = attempt \<longrightarrow> i = 0) \<and>
           (attempt < n \<longrightarrow> 1 \<le> i \<and>
              ?tr ! (i - 1) = Delay (backoff_delay (n - 1) (random (n - 1))))"
      proof (cases i)
        case 0
        with a retry show ?thesis by simp
      next
        case (Suc i1)
        show ?thesis
        proof (cases i1)
          case 0
          with a retry Suc show ?thesis by simp
        next
          case (Suc j)
          have i: "i = Suc (Suc j)" using \<open>i = Suc i1\<close> Suc by simp
          have j: "j < length ?tr' \<and> ?tr' ! j = Attempt n"
            using a retry i by simp
          from ih j have n: "Suc attempt \<le> n" "n = Suc attempt \<longrightarrow> j = 0"
            "Suc attempt < n \<longrightarrow> 1 \<le> j \<and>
              ?tr' ! (j - 1) = Delay (backoff_delay (n - 1) (random (n - 1)))"
            by blast+
          have prev: "?tr ! (i - 1) = Delay (backoff_delay (n - 1) (random (n - 1)))"
          proof (cases "n = Suc attempt")
            case True
            then have "j = 0" using n(2) by simp
            then have "?tr ! (i - 1) = Delay ?d0" using retry i by simp
            then show ?thesis using True by simp
          next
            case False
            then have lt: "Suc attempt < n" using n(1) by simp
            then have d': "1 \<le> j" "?tr' ! (j - 1) = Delay (backoff_delay (n - 1) (random (n - 1)))"
              using n(3) by blast+
            obtain j' where j': "j = Suc j'" using d'(1) by (cases j) simp_all
            show ?thesis using retry i d'(2) j' by simp
          qed
          show ?thesis using n(1) i prev by simp
        qed
      qed
    qed
  qed
qed

text \<open>Every failure of the \<^verbatim>\<open>try\<close> block is caught on line 34, whatever raised it: as
  long as no call returns a 2xx response, all \<open>maxRetries\<close> attempts are made.\<close>

lemma fetchWithRetry_retries_every_failure:
  assumes "0 < maxRetries" "\<forall>i<maxRetries. \<not> is_2xx (fetch i)"
  shows "\<exists>e. fst (fetchWithRetry fetch random maxRetries) = Inl e \<and>
             attempts_of (snd (fetchWithRetry fetch random maxRetries)) = [0..<maxRetries]"
proof -
  have "\<forall>i. \<exists>e. i < maxRetries \<longrightarrow> try_block (fetch i) = Inl e"
    using assms(2) try_block_not_2xx by blast
  then obtain err where err: "\<forall>i. i < maxRetries \<longrightarrow> try_block (fetch i) = Inl (err i)"
    by metis
  then have fails: "\<And>i. 0 \<le> i \<Longrightarrow> i < maxRetries \<Longrightarrow> try_block (fetch i) = Inl (err i)"
    by simp
  show ?thesis
    using loop_all_fail [where fetch=fetch and random=random and err=err, OF assms(1) fails]
    by (simp add: fetchWithRetry_def)
qed

text \<open>
  Claim C1. A non-2xx status that is neither 429 nor 5xx (for example 400) is meant to
  be fatal: \<^verbatim>\<open>fetchWithRetry\<close> should abort at once, so that a 400 on the first
  attempt gives exactly one attempt. The source comment on line 29 says the same (throw
  the error directly). The \<^verbatim>\<open>throw\<close> of line 31 is inside the \<^verbatim>\<open>try\<close> block, though,
  so the \<^verbatim>\<open>catch\<close> of line 34 takes it like a retriable error. On an upstream that
  answers 400 to every call, with the default of 5 attempts, the function makes all 5
  attempts, sleeps four times, and only then throws the error with the status and the
  body.
\<close>

theorem fetchWithRetry_retries_status_400: "fetchWithRetry (upstream_always 400 ''bad'') jitter_zero default_maxRetries =
  (Inl (APIRequestFailed 400 ''bad''),
   [Attempt 0, Delay (Finite 1000), Attempt 1, Delay (Finite 2000), Attempt 2, Delay (Finite 4000), Attempt 3, Delay (Finite 8000), Attempt 4])"
  by (simp add: eval_defs)

text \<open>
  The half-open interval of claim C2 is not what binary64 gives. When \<^verbatim>\<open>Math.random()\<close>
  returns \<open>1 - 2^-52\<close>, the jitter \<^verbatim>\<open>Math.random() * 1000\<close> rounds to \<open>1000 - 2^-42\<close>;
  in the second iteration the sum \<open>2000 + (1000 - 2^-42)\<close> lies half-way between two
  neighbouring doubles and rounds to 3000. So the delay before attempt 2 is exactly
  3000, the excluded end of the interval from 2000 to 3000.
\<close>

theorem backoff_delay_reaches_3000:
  "snd (fetchWithRetry (upstream_always 500 ''busy'') jitter_max 3) =
     [Attempt 0, Delay (Finite (2000 - 1 / 2 ^ 42)), Attempt 1, Delay (Finite 3000), Attempt 2] \<and>
   \<not> ((3000::real) < 2 ^ (2 - 1) * 1000 + 1000)"
proof -
  have j: "round64 ((1 - 1 / 2 ^ 52) * 1000) = 1000 - 1 / 2 ^ 42"
    using round64_binade [of 9 "(1 - 1 / 2 ^ 52) * 1000"]
    by (simp add: ties_even_def Let_def)
  have s: "round64 (1000 + (1000 - 1 / 2 ^ 42)) = 2000 - 1 / 2 ^ 42"
    using round64_binade [of 10 "1000 + (1000 - 1 / 2 ^ 42)"]
    by (simp add: ties_even_def Let_def)
  have pw: "to_double (2 ^ 0) = Finite 1"
    by (simp add: to_double_def)
  have base: "double_mult (Finite 1) (Finite 1000) = Finite 1000"
    by (simp add: to_double_def)
  have jit: "double_mult (Finite (1 - 1 / 2 ^ 52)) (Finite 1000) = Finite (1000 - 1 / 2 ^ 42)"
    unfolding double_mult.simps to_double_def j by simp
  have sum: "double_add (Finite 1000) (Finite (1000 - 1 / 2 ^ 42)) = Finite (2000 - 1 / 2 ^ 42)"
    unfolding double_add.simps to_double_def s by simp
  have d0: "backoff_delay 0 (jitter_max 0) = Finite (2000 - 1 / 2 ^ 42)"
    unfolding backoff_delay_def jitter_max_def pw base jit sum ..
  have d1: "backoff_delay (Suc 0) (jitter_max (Suc 0)) = Finite 3000"
    using backoff_delay_reaches_upper_end by (simp add: jitter_max_def)
  show ?thesis
    by (simp add: fetchWithRetry_def fetchWithRetry_loop.simps try_block_def response_ok_def
        upstream_always_def d0 d1)
qed

text \<open>
  Claim C2, amended. With every value of \<^verbatim>\<open>Math.random()\<close> in \<open>[0, 1)\<close>: attempt 0 is the
  first event of a run, so no delay precedes it; whenever attempt \<open>n \<ge> 1\<close> occurs, the
  event just before it is the backoff sleep with the delay line 40 computes in
  iteration \<open>n - 1\<close>; and for \<open>n \<le> 49\<close> that delay is finite and lies in the closed
  interval from \<open>2^(n-1) * 1000\<close> to \<open>2^(n-1) * 1000 + 1000\<close> milliseconds. The upper end
  is reached (\<open>backoff_delay_reaches_upper_end\<close>), and from \<open>n = 50\<close> on the delay
  can exceed it, the spacing of the doubles being 64 or more there
  (\<open>backoff_delay_beyond_upper_end\<close>).
\<close>

theorem backoff_delay_in_closed_interval:
  assumes "\<forall>k. 0 \<le> random k \<and> random k < 1"
  shows "\<forall>i n. i < length (snd (fetchWithRetry fetch random maxRetries)) \<and>
           snd (fetchWithRetry fetch random maxRetries) ! i = Attempt n \<longrightarrow>
           (n = 0 \<longrightarrow> i = 0) \<and>
           (1 \<le> n \<longrightarrow> 1 \<le> i \<and>
              snd (fetchWithRetry fetch random maxRetries) ! (i - 1) =
                Delay (backoff_delay (n - 1) (random (n - 1)))) \<and>
           (1 \<le> n \<and> n \<le> 49 \<longrightarrow>
              (\<exists>d. snd (fetchWithRetry fetch random maxRetries) ! (i - 1) = Delay (Finite d) \<and>
                   2 ^ (n - 1) * 1000 \<le> d \<and> d \<le> 2 ^ (n - 1) * 1000 + 1000))"
proof (intro allI impI)
  fix i n
  let ?tr = "snd (fetchWithRetry fetch random maxRetries)"
  assume a: "i < length ?tr \<and> ?tr ! i = Attempt n"
  have tr: "?tr = snd (fetchWithRetry_loop fetch random maxRetries 0)"
    by (simp add: fetchWithRetry_def)
  from loop_delays [of fetch random maxRetries 0] a
  have l: "(n = 0 \<longrightarrow> i = 0) \<and>
       (0 < n \<longrightarrow> 1 \<le> i \<and> ?tr ! (i - 1) = Delay (backoff_delay (n - 1) (random (n - 1))))"
    unfolding tr by blast
  have b: "0 \<le> random (n - 1)" "random (n - 1) < 1"
    using assms by simp_all
  have bounds: "\<exists>d. ?tr ! (i - 1) = Delay (Finite d) \<and>
                   2 ^ (n - 1) * 1000 \<le> d \<and> d \<le> 2 ^ (n - 1) * 1000 + 1000"
    if n: "1 \<le> n \<and> n \<le> 49"
  proof -
    have "n - 1 \<le> 48" using n by linarith
    from backoff_delay_bounds [OF this b]
    obtain d where d: "backoff_delay (n - 1) (random (n - 1)) = Finite d"
      "2 ^ (n - 1) * 1000 \<le> d" "d \<le> 2 ^ (n - 1) * 1000 + 1000"
      by blast
    have "?tr ! (i - 1) = Delay (Finite d)"
      using l n d(1) by simp
    then show ?thesis using d(2,3) by blast
  qed
  show "(n = 0 \<longrightarrow> i = 0) \<and>
           (1 \<le> n \<longrightarrow> 1 \<le> i \<and>
              ?tr ! (i - 1) = Delay (backoff_delay (n - 1) (random (n - 1)))) \<and>
           (1 \<le> n \<and> n \<le> 49 \<longrightarrow>
              (\<exists>d. ?tr ! (i - 1) = Delay (Finite d) \<and>
                   2 ^ (n - 1) * 1000 \<le> d \<and> d \<le> 2 ^ (n - 1) * 1000 + 1000))"
    using l bounds by simp
qed

theorem backoff_delay_in_closed_interval_witness:
  "snd (fetchWithRetry (upstream_always 500 ''busy'') jitter_half 3) ! 2 = Attempt 1 \<and>
   snd (fetchWithRetry (upstream_always 500 ''busy'') jitter_half 3) ! (2 - 1) = Delay (Finite 1500) \<and>
   (2::real) ^ (1 - 1) * 1000 \<le> 1500 \<and> (1500::real) \<le> 2 ^ (1 - 1) * 1000 + 1000"
proof -
  have h: "\<forall>k. 0 \<le> jitter_half k \<and> jitter_half k < 1"
    by (simp add: jitter_half_def)
  have tr: "snd (fetchWithRetry (upstream_always 500 ''busy'') jitter_half 3) =
      [Attempt 0, Delay (Finite 1500), Attempt 1, Delay (Finite 2500), Attempt 2]"
    by (simp add: eval_defs)
  show ?thesis
    using backoff_delay_in_closed_interval [OF h, of "upstream_always 500 ''busy''" 3] tr by simp
qed

text \<open>
  Claim C3. No run makes more attempts than \<open>maxRetries\<close>: the attempts of a run are
  \<open>0, 1, ..., k - 1\<close> for some \<open>k \<le> maxRetries\<close>. When there is at least one attempt to
  make and each of the \<open>maxRetries\<close> calls ends in a retriable outcome (HTTP 429, HTTP
  5xx or a transport error), exactly the attempts \<open>0, ..., maxRetries - 1\<close> are made and
  the function then throws the error of the last one. (With \<open>maxRetries = 0\<close> the loop
  body never runs and the function returns undefined; the handler always uses the
  default 5.)
\<close>

theorem fetchWithRetry_exhaustion:
  "(\<exists>k\<le>maxRetries. attempts_of (snd (fetchWithRetry fetch random maxRetries)) = [0..<k]) \<and>
   (0 < maxRetries \<and> (\<forall>i<maxRetries. is_retriable (fetch i)) \<longrightarrow>
      fst (fetchWithRetry fetch random maxRetries) = Inl (error_of (fetch (maxRetries - 1))) \<and>
      attempts_of (snd (fetchWithRetry fetch random maxRetries)) = [0..<maxRetries])"
proof
  show "\<exists>k\<le>maxRetries. attempts_of (snd (fetchWithRetry fetch random maxRetries)) = [0..<k]"
    using loop_attempts_cap [of 0 maxRetries fetch random]
    by (simp add: fetchWithRetry_def)
next
  show "0 < maxRetries \<and> (\<forall>i<maxRetries. is_retriable (fetch i)) \<longrightarrow>
      fst (fetchWithRetry fetch random maxRetries) = Inl (error_of (fetch (maxRetries - 1))) \<and>
      attempts_of (snd (fetchWithRetry fetch random maxRetries)) = [0..<maxRetries]"
  proof
    assume a: "0 < maxRetries \<and> (\<forall>i<maxRetries. is_retriable (fetch i))"
    then have pos: "0 < maxRetries" by simp
    have fails: "\<And>i. 0 \<le> i \<Longrightarrow> i < maxRetries \<Longrightarrow> try_block (fetch i) = Inl (error_of (fetch i))"
      using a by (simp add: try_block_retriable)
    show "fst (fetchWithRetry fetch random maxRetries) = Inl (error_of (fetch (maxRetries - 1))) \<and>
      attempts_of (snd (fetchWithRetry fetch random maxRetries)) = [0..<maxRetries]"
      using loop_all_fail [where fetch=fetch and random=random and err="\<lambda>i. error_of (fetch i)", OF pos fails]
      by (simp add: fetchWithRetry_def)
  qed
qed

theorem fetchWithRetry_exhaustion_witness:
  "fst (fetchWithRetry (upstream_always 500 ''busy'') jitter_zero 5) = Inl (RetriableHTTPError 500) \<and>
   attempts_of (snd (fetchWithRetry (upstream_always 500 ''busy'') jitter_zero 5)) = [0, 1, 2, 3, 4]"
proof -
  have h: "0 < (5::nat) \<and> (\<forall>i<5. is_retriable (upstream_always 500 ''busy'' i))"
    by (simp add: upstream_always_def)
  have u: "[0..<5] = [0, 1, 2, 3, 4::nat]"
    by (simp add: upt_rec)
  show ?thesis
    using fetchWithRetry_exhaustion [of 5 "upstream_always 500 ''busy''" jitter_zero] h u
    by (simp add: upstream_always_def)
qed

section \<open>Properties of the handler\<close>

lemma get_prop_truthy: "truthy v \<Longrightarrow> get_prop v k = Inr (opt_prop v k)"
  by (cases v) simp_all

lemma get_prop_not_nullish: "\<not> nullish v \<Longrightarrow> get_prop v k = Inr (opt_prop v k)"
  by (cases v) simp_all

lemma opt_prop_falsy: "\<not> truthy v \<Longrightarrow> opt_prop v k = JUndefined"
  by (cases v) simp_all

lemma missing_params_eq:
  "missing_params (opt_prop b ''promptText'') (opt_prop b ''image'') (opt_prop b ''model'') =
     Inr (\<not> required_present b)"
proof (cases "truthy (opt_prop b ''image'')")
  case True
  then show ?thesis
    by (simp add: missing_params_def required_present_def get_prop_truthy)
next
  case False
  then show ?thesis
    by (simp add: missing_params_def required_present_def opt_prop_falsy)
qed


lemma API_KEY_Some: "key \<noteq> [] \<Longrightarrow> API_KEY (Some key) = key"
  by (simp add: API_KEY_def)

lemma handler_try_nullish:
  assumes "requestBody_of JSON_parse (body req) = (rb, tr0)" "nullish rb"
  shows "handler_try key JSON_parse fetch random req = (Inl TypeError, tr0)"
  using assms by (simp add: handler_try_def destructure_def)

lemma handler_try_missing:
  assumes "requestBody_of JSON_parse (body req) = (rb, tr0)" "\<not> nullish rb" "\<not> required_present rb"
  shows "handler_try key JSON_parse fetch random req =
           (Inr \<lparr>res_status = 400, res_json = ErrorBody MissingParams\<rparr>, tr0)"
  using assms by (simp add: handler_try_def destructure_def missing_params_eq)



lemma respond_no_image:
  assumes "response_text r = Some t" "JSON_parse t = Some result"
    and "\<not> nullish result" "extract_base64Data result = Inr d" "\<not> truthy d"
  shows "respond JSON_parse (Some r) =
           Inr \<lparr>res_status = 500,
                res_json = ErrorDetailsBody
                  (if opt_prop (opt_index0 (opt_prop (opt_index0 (opt_prop result ''candidates''))
                        ''safetyRatings'')) ''probability'' = JStr ''HIGH''
                   then BlockedBySafety else GenerationFailed) result\<rparr>"
  using assms
  by (simp add: respond_def response_json_def safety_is_high_def get_prop_not_nullish)

lemma handler_with_key:
  assumes "env = Some key" "key \<noteq> []" "req_method req = ''POST''"
  shows "handler env JSON_parse fetch random req =
     (case handler_try key JSON_parse fetch random req of
        (Inr rep, tr) \<Rightarrow> (rep, tr)
      | (Inl e, tr) \<Rightarrow> (\<lparr>res_status = 500, res_json = ErrorBody (InternalError e)\<rparr>, tr))"
  using assms by (simp add: handler_def API_KEY_def)

lemma handler_nullish_body:
  assumes "env = Some key" "key \<noteq> []" "req_method req = ''POST''"
    and "requestBody_of JSON_parse (body req) = (rb, tr0)" "nullish rb"
  shows "handler env JSON_parse fetch random req =
           (\<lparr>res_status = 500, res_json = ErrorBody (InternalError TypeError)\<rparr>, tr0)"
  using handler_with_key [OF assms(1,2,3)] handler_try_nullish [OF assms(4,5)]
  by simp

lemma handler_missing_fields:
  assumes "env = Some key" "key \<noteq> []" "req_method req = ''POST''"
    and "requestBody_of JSON_parse (body req) = (rb, tr0)" "\<not> nullish rb" "\<not> required_present rb"
  shows "handler env JSON_parse fetch random req =
           (\<lparr>res_status = 400, res_json = ErrorBody MissingParams\<rparr>, tr0)"
  using handler_with_key [OF assms(1,2,3)] handler_try_missing [OF assms(4,5,6)]
  by simp

text \<open>
  Claim C8. When the API key is not configured (the environment variable is unset or
  empty), the handler answers 500 with the misconfiguration message, whatever the
  method and the body are, before the method check, without parsing anything and
  without calling the upstream.
\<close>

theorem handler_missing_key:
  "handler None JSON_parse fetch random req =
     (\<lparr>res_status = 500, res_json = ErrorBody KeyNotSet\<rparr>, []) \<and>
   handler (Some []) JSON_parse fetch random req =
     (\<lparr>res_status = 500, res_json = ErrorBody KeyNotSet\<rparr>, [])"
  by (simp add: handler_def API_KEY_def)

text \<open>
  Claim C9. With the API key present, a request whose method is not \<^verbatim>\<open>POST\<close> gets the
  405 response, whatever its body is; the body is not parsed and the upstream is not
  called.
\<close>

theorem handler_method_not_allowed:
  assumes "env = Some key" "key \<noteq> []" "req_method req \<noteq> ''POST''"
  shows "handler env JSON_parse fetch random req =
           (\<lparr>res_status = 405, res_json = ErrorBody PostOnly\<rparr>, [])"
  using assms by (simp add: handler_def API_KEY_def)

theorem handler_method_not_allowed_witness:
  "handler (Some ''key'') parse_sample (fetch_always 200 ''img'') jitter_zero
     (sample_request\<lparr>req_method := ''GET''\<rparr>) =
     (\<lparr>res_status = 405, res_json = ErrorBody PostOnly\<rparr>, [])"
  using handler_method_not_allowed [where env="Some ''key''" and key="''key''" and JSON_parse=parse_sample
      and fetch="fetch_always 200 ''img''" and random=jitter_zero
      and req="sample_request\<lparr>req_method := ''GET''\<rparr>"]
  by simp

text \<open>
  Claim C4. A request that lacks any of \<^verbatim>\<open>promptText\<close>, \<^verbatim>\<open>image.data\<close>,
  \<^verbatim>\<open>image.mimeType\<close> and \<^verbatim>\<open>model\<close> is meant to get the 400 response of line 82, and
  \<open>handler_missing_fields\<close> shows that it does whenever the body (after the manual
  decoding) is neither undefined nor null. A request whose body is undefined or null
  (or is the text \<^verbatim>\<open>null\<close>, which decodes to null) lacks all four fields, but the
  destructuring of line 79 raises a TypeError on it; the \<^verbatim>\<open>catch\<close> of line 137 turns
  that into the 500 internal-error response. No upstream call is made.
\<close>

theorem handler_absent_body_is_internal_error:
  "handler (Some ''key'') JSON_parse fetch random \<lparr>req_method = ''POST'', body = JUndefined\<rparr> =
     (\<lparr>res_status = 500, res_json = ErrorBody (InternalError TypeError)\<rparr>, []) \<and>
   handler (Some ''key'') JSON_parse fetch random \<lparr>req_method = ''POST'', body = JNull\<rparr> =
     (\<lparr>res_status = 500, res_json = ErrorBody (InternalError TypeError)\<rparr>, []) \<and>
   handler (Some ''key'') parse_null fetch random \<lparr>req_method = ''POST'', body = JStr ''null''\<rparr> =
     (\<lparr>res_status = 500, res_json = ErrorBody (InternalError TypeError)\<rparr>, [ManualParse ''null''])"
  by (simp add: handler_def API_KEY_def handler_try_def requestBody_of_def destructure_def parse_null_def)

text \<open>
  Claim C7. With the API key present and the method \<^verbatim>\<open>POST\<close>, a body that is a
  non-empty string which \<^verbatim>\<open>JSON.parse\<close> rejects does not make the handler raise: the
  request body becomes the empty object, and the field check answers 400 with the
  missing-parameters message. The only effect is the one manual parse; the upstream is
  not called.
\<close>

theorem handler_undecodable_body:
  assumes "env = Some key" "key \<noteq> []" "req_method req = ''POST''"
    and "body req = JStr s" "s \<noteq> []" "JSON_parse s = None"
  shows "requestBody_of JSON_parse (body req) = (JObj [], [ManualParse s]) \<and>
         handler env JSON_parse fetch random req =
           (\<lparr>res_status = 400, res_json = ErrorBody MissingParams\<rparr>, [ManualParse s])"
proof -
  have rb: "requestBody_of JSON_parse (body req) = (JObj [], [ManualParse s])"
    using assms(4,5,6) by (simp add: requestBody_of_def)
  have "\<not> nullish (JObj [])" "\<not> required_present (JObj [])"
    by (simp_all add: required_present_def)
  then show ?thesis
    using handler_missing_fields [OF assms(1,2,3) rb] rb by simp
qed

theorem handler_undecodable_body_witness:
  "handler (Some ''key'') parse_fails (fetch_always 200 ''img'') jitter_zero
     \<lparr>req_method = ''POST'', body = JStr ''[object Object]''\<rparr> =
     (\<lparr>res_status = 400, res_json = ErrorBody MissingParams\<rparr>, [ManualParse ''[object Object]''])"
  using handler_undecodable_body [where env="Some ''key''" and key="''key''" and s="''[object Object]''"
      and JSON_parse=parse_fails and fetch="fetch_always 200 ''img''" and random=jitter_zero
      and req="\<lparr>req_method = ''POST'', body = JStr ''[object Object]''\<rparr>"]
  by (simp add: parse_fails_def)

text \<open>The empty string as body: the manual parse of lines 68 to 76 is skipped (it only
  runs for strings of positive length), the destructuring of the string yields three
  undefined values, and the handler answers 400 with the missing-parameters message, the
  same result as for the empty object as body; nothing is raised, nothing is parsed and
  the upstream is not called.\<close>

lemma handler_empty_string_body:
  assumes "env = Some key" "key \<noteq> []" "req_method req = ''POST''" "body req = JStr ''''"
  shows "requestBody_of JSON_parse (body req) = (JStr '''', []) \<and>
         destructure (JStr '''') = Inr (JUndefined, JUndefined, JUndefined) \<and>
         handler env JSON_parse fetch random req =
           (\<lparr>res_status = 400, res_json = ErrorBody MissingParams\<rparr>, []) \<and>
         handler env JSON_parse fetch random req =
           handler env JSON_parse fetch random (req\<lparr>body := JObj []\<rparr>)"
proof -
  have rb: "requestBody_of JSON_parse (body req) = (JStr '''', [])"
    using assms(4) by (simp add: requestBody_of_def)
  have rb': "requestBody_of JSON_parse (body (req\<lparr>body := JObj []\<rparr>)) = (JObj [], [])"
    by (simp add: requestBody_of_def)
  have m': "req_method (req\<lparr>body := JObj []\<rparr>) = ''POST''"
    using assms(3) by simp
  have a: "\<not> nullish (JStr '''')" "\<not> required_present (JStr '''')"
    by (simp_all add: required_present_def)
  have b: "\<not> nullish (JObj [])" "\<not> required_present (JObj [])"
    by (simp_all add: required_present_def)
  show ?thesis
    using handler_missing_fields [OF assms(1,2,3) rb a, of fetch random]
      handler_missing_fields [OF assms(1,2) m' rb' b, of fetch random] rb
    by (simp add: destructure_def)
qed

text \<open>
  Claim C10. For the empty string as body the handler answers 400 with the
  missing-parameters message, as the lemma above shows, and the claim says that this is
  the response an absent body gets. A body that is absent (undefined) lacks the same
  fields, but takes the TypeError path described under claim C4: its response is the
  500 internal-error response, not the 400 of the empty string.
\<close>

theorem empty_string_and_absent_body_differ:
  "handler (Some ''key'') parse_fails (fetch_always 200 ''img'') jitter_zero
     \<lparr>req_method = ''POST'', body = JStr ''''\<rparr> =
     (\<lparr>res_status = 400, res_json = ErrorBody MissingParams\<rparr>, []) \<and>
   handler (Some ''key'') parse_fails (fetch_always 200 ''img'') jitter_zero
     \<lparr>req_method = ''POST'', body = JUndefined\<rparr> =
     (\<lparr>res_status = 500, res_json = ErrorBody (InternalError TypeError)\<rparr>, []) \<and>
   handler (Some ''key'') parse_fails (fetch_always 200 ''img'') jitter_zero
     \<lparr>req_method = ''POST'', body = JStr ''''\<rparr> \<noteq>
   handler (Some ''key'') parse_fails (fetch_always 200 ''img'') jitter_zero
     \<lparr>req_method = ''POST'', body = JUndefined\<rparr>"
  by (simp add: handler_def API_KEY_def handler_try_def requestBody_of_def destructure_def
      missing_params_def)







text \<open>
  Claim C6. A 2xx response whose decoded body holds no inline-data part is meant to give
  a 500 response that carries the decoded body as \<^verbatim>\<open>details\<close>, with the safety message
  exactly when the first safety rating of the first candidate has probability
  \<^verbatim>\<open>HIGH\<close>; \<open>respond_no_image\<close> shows this for every decoded body that is neither
  undefined nor null. Line 119 reads \<^verbatim>\<open>result?.candidates\<close>, line 127 reads
  \<^verbatim>\<open>result.candidates\<close>: when the upstream answers 200 with the JSON text \<^verbatim>\<open>null\<close>,
  line 127 raises a TypeError, and the response is the 500 internal-error response
  without \<^verbatim>\<open>details\<close>.
\<close>

theorem handler_null_result_drops_details:
  "handler (Some ''key'') parse_null (fetch_always 200 ''null'') jitter_zero sample_request =
     (\<lparr>res_status = 500, res_json = ErrorBody (InternalError TypeError)\<rparr>, [Attempt 0])"
  by (simp add: handler_def API_KEY_def handler_try_def requestBody_of_def destructure_def
      missing_params_def payload_def sample_request_def eval_defs respond_def response_json_def
      parse_null_def extract_base64Data_def safety_is_high_def)

end
